theory Spec2Isabelle
  imports Main
begin

section \<open>Python values, names and exceptions\<close>

text \<open>
  The two source files, \<^verbatim>\<open>Signal.py\<close> and \<^verbatim>\<open>ValueType.py\<close>, pass around
  untyped Python objects: a value type is a class object such as \<^verbatim>\<open>float\<close>, a size is
  whatever the caller hands to \<^verbatim>\<open>set_size\<close>. The model keeps that: every argument
  and every field is a \<open>pyval\<close>.

  A class object is a \<open>pytype\<close>. The five classes the code names have a constructor
  each; \<open>TOther q\<close> is any other class, told apart by its qualified name \<open>q\<close>.
  Floating-point numbers are left out of \<open>pyval\<close> (no claim computes with one);
  objects whose class overrides \<^verbatim>\<open>__eq__\<close> are left out as well.
\<close>

datatype pytype = TFloat | TInt | TStr | TBool | TDate | TOther string

datatype pyval =
    PNone
  | PBool bool
  | PInt int
  | PStr string
  | PType pytype
  | PModule string
  | PBuiltin string

datatype pyerror =
    NameError string
  | AttributeError string
  | TypeError string
  | IndentationError string

text \<open>Sequencing of computations that may raise: the first exception ends the run.\<close>

definition bindE :: "'e + 'a \<Rightarrow> ('a \<Rightarrow> 'e + 'b) \<Rightarrow> 'e + 'b" where
  "bindE m f = (case m of Inl e \<Rightarrow> Inl e | Inr x \<Rightarrow> f x)"

text \<open>
  Python's \<^verbatim>\<open>==\<close> on these values: \<^verbatim>\<open>bool\<close> is a subclass of \<^verbatim>\<open>int\<close>, so
  \<^verbatim>\<open>True == 1\<close> and \<^verbatim>\<open>False == 0\<close>; strings compare by content; class objects,
  modules and builtin functions compare by identity. \<^verbatim>\<open>x in (a, b, ...)\<close> compares
  \<^verbatim>\<open>x\<close> with each element in turn.
\<close>

definition py_int_of :: "pyval \<Rightarrow> int option" where
  "py_int_of v = (case v of PBool b \<Rightarrow> Some (if b then 1 else 0) | PInt i \<Rightarrow> Some i | _ \<Rightarrow> None)"

definition py_eq :: "pyval \<Rightarrow> pyval \<Rightarrow> bool" where
  "py_eq x y = (case (py_int_of x, py_int_of y) of (Some i, Some j) \<Rightarrow> i = j | _ \<Rightarrow> x = y)"

fun py_in :: "pyval \<Rightarrow> pyval list \<Rightarrow> bool" where
  "py_in x [] = False"
| "py_in x (e # es) = (py_eq x e \<or> py_in x es)"

definition isinstance_str :: "pyval \<Rightarrow> bool" where
  "isinstance_str v = (case v of PStr _ \<Rightarrow> True | _ \<Rightarrow> False)"

text \<open>
  A name is looked up in the globals of the module whose code uses it, then among the
  builtins; a name bound in neither raises \<^verbatim>\<open>NameError\<close>. An attribute of a module is
  looked up in the module's namespace.
\<close>

definition py_builtins :: "(string \<times> pyval) list" where
  "py_builtins =
    [(''float'', PType TFloat), (''int'', PType TInt), (''str'', PType TStr),
     (''bool'', PType TBool), (''isinstance'', PBuiltin ''isinstance''),
     (''print'', PBuiltin ''print'')]"

definition py_name :: "(string \<times> pyval) list \<Rightarrow> string \<Rightarrow> pyerror + pyval" where
  "py_name globals n =
    (case map_of globals n of
       Some v \<Rightarrow> Inr v
     | None \<Rightarrow> (case map_of py_builtins n of Some v \<Rightarrow> Inr v | None \<Rightarrow> Inl (NameError n)))"

definition datetime_module :: "(string \<times> pyval) list" where
  "datetime_module =
    [(''date'', PType TDate), (''datetime'', PType (TOther ''datetime.datetime''))]"

definition py_getattr :: "pyval \<Rightarrow> string \<Rightarrow> pyerror + pyval" where
  "py_getattr v a =
    (case v of
       PModule m \<Rightarrow>
         (if m = ''datetime'' then
            (case map_of datetime_module a of Some x \<Rightarrow> Inr x | None \<Rightarrow> Inl (AttributeError a))
          else Inl (AttributeError a))
     | _ \<Rightarrow> Inl (AttributeError a))"

definition py_attr :: "(string \<times> pyval) list \<Rightarrow> string \<Rightarrow> string \<Rightarrow> pyerror + pyval" where
  "py_attr globals n a = bindE (py_name globals n) (\<lambda>m. py_getattr m a)"

text \<open>A tuple display \<^verbatim>\<open>(a, b, ...)\<close> evaluates its elements from left to right.\<close>

primrec py_tuple :: "(pyerror + pyval) list \<Rightarrow> pyerror + pyval list" where
  "py_tuple [] = Inr []"
| "py_tuple (e # es) = bindE e (\<lambda>v. bindE (py_tuple es) (\<lambda>vs. Inr (v # vs)))"

section \<open>Signal.py\<close>

text \<open>
  \<^verbatim>\<open>Signal.py\<close> has no import statement: the only global name bound when
  \<^verbatim>\<open>__init__\<close> runs is the class itself.

  The file is modelled at two levels. \<open>Signal_init\<close>, the accessors and
  \<open>Signal_set_size\<close> are the bodies of the function definitions as written, and
  \<open>call_method\<close> is a call through the class. \<open>Signal_module\<close>, further down, is
  what loading the file itself does.
\<close>

definition Signal_globals :: "(string \<times> pyval) list" where
  "Signal_globals = [(''Signal'', PType (TOther ''Signal''))]"

record Signal =
  s_name :: pyval
  s_description :: pyval
  s_quantity :: pyval
  s_unit :: pyval
  s_value_type :: pyval
  s_n_dimensions :: pyval
  s_size :: pyval

text \<open>
  \<^verbatim>\<open>Signal.__init__\<close>: six assignments, then the chain of tests that sets
  \<^verbatim>\<open>_size\<close>. Each test evaluates the names it mentions when it is reached:
  the tuple \<^verbatim>\<open>(float, int)\<close> for the first, \<^verbatim>\<open>datetime.date\<close> for the second,
  \<^verbatim>\<open>bool\<close> for the third.
\<close>

definition Signal_init ::
  "pyval \<Rightarrow> pyval \<Rightarrow> pyval \<Rightarrow> pyval \<Rightarrow> pyval \<Rightarrow> pyval \<Rightarrow> pyerror + Signal" where
  "Signal_init name description quantity unit value_type n_dimensions =
    (let self = (\<lambda>sz. \<lparr>s_name = name, s_description = description, s_quantity = quantity,
                   s_unit = unit, s_value_type = value_type, s_n_dimensions = n_dimensions,
                   s_size = PInt sz\<rparr>) in
     bindE (py_tuple [py_name Signal_globals ''float'', py_name Signal_globals ''int''])
       (\<lambda>float_int.
       if py_in value_type float_int then Inr (self 8)
       else
         bindE (py_attr Signal_globals ''datetime'' ''date'') (\<lambda>date_t.
           if py_eq value_type date_t then Inr (self 30)
           else
             bindE (py_name Signal_globals ''bool'') (\<lambda>bool_t.
               if py_eq value_type bool_t then Inr (self 1) else Inr (self 0)))))"

definition Signal_get_name :: "Signal \<Rightarrow> pyval" where
  "Signal_get_name self = s_name self"

definition Signal_get_quantity :: "Signal \<Rightarrow> pyval" where
  "Signal_get_quantity self = s_quantity self"

definition Signal_get_unit :: "Signal \<Rightarrow> pyval" where
  "Signal_get_unit self = s_unit self"

definition Signal_get_value_type :: "Signal \<Rightarrow> pyval" where
  "Signal_get_value_type self = s_value_type self"

definition Signal_get_n_dimensions :: "Signal \<Rightarrow> pyval" where
  "Signal_get_n_dimensions self = s_n_dimensions self"

definition Signal_get_size :: "Signal \<Rightarrow> pyval" where
  "Signal_get_size self = s_size self"

definition Signal_set_size :: "Signal \<Rightarrow> pyval \<Rightarrow> Signal" where
  "Signal_set_size self sz = self\<lparr>s_size := sz\<rparr>"

text \<open>
  A method call \<^verbatim>\<open>s.m(args)\<close> on a \<open>Signal\<close>. The attribute \<^verbatim>\<open>m\<close> is looked up
  in the instance (its seven underscore fields, none of them callable), then in the
  class. The table lists the methods the class statement defines for a constructed
  object, in source order; the constructor is \<open>Signal_init\<close> above, and
  \<^verbatim>\<open>add_value\<close>, which has no body, is in \<open>Signal_defs\<close> below. A call returns
  its result and the object after the call.
\<close>

type_synonym 's pymethod = "'s \<Rightarrow> pyval list \<Rightarrow> pyerror + (pyval \<times> 's)"

definition getter :: "('s \<Rightarrow> pyval) \<Rightarrow> 's pymethod" where
  "getter f self args =
    (case args of [] \<Rightarrow> Inr (f self, self) | _ \<Rightarrow> Inl (TypeError ''arguments''))"

definition setter :: "('s \<Rightarrow> pyval \<Rightarrow> 's) \<Rightarrow> 's pymethod" where
  "setter f self args =
    (case args of [v] \<Rightarrow> Inr (PNone, f self v) | _ \<Rightarrow> Inl (TypeError ''arguments''))"

definition Signal_methods :: "(string \<times> Signal pymethod) list" where
  "Signal_methods =
    [(''get_name'', getter Signal_get_name),
     (''get_quantity'', getter Signal_get_quantity),
     (''get_unit'', getter Signal_get_unit),
     (''get_value_type'', getter Signal_get_value_type),
     (''get_n_dimensions'', getter Signal_get_n_dimensions),
     (''get_size'', getter Signal_get_size),
     (''set_size'', setter Signal_set_size)]"

definition Signal_fields :: "Signal \<Rightarrow> (string \<times> pyval) list" where
  "Signal_fields self =
    [(''_name'', s_name self), (''_description'', s_description self),
     (''_quantity'', s_quantity self), (''_unit'', s_unit self),
     (''_value_type'', s_value_type self), (''_n_dimensions'', s_n_dimensions self),
     (''_size'', s_size self)]"

definition call_method :: "Signal \<Rightarrow> string \<Rightarrow> pyval list \<Rightarrow> pyerror + (pyval \<times> Signal)" where
  "call_method self m args =
    (case map_of (Signal_fields self) m of
       Some v \<Rightarrow> Inl (TypeError ''not callable'')
     | None \<Rightarrow>
         (case map_of Signal_methods m of
            None \<Rightarrow> Inl (AttributeError m)
          | Some f \<Rightarrow> f self args))"

text \<open>A run of method calls on one object, stopping at the first exception.\<close>

fun call_all :: "Signal \<Rightarrow> (string \<times> pyval list) list \<Rightarrow> pyerror + Signal" where
  "call_all s [] = Inr s"
| "call_all s ((m, args) # cs) = bindE (call_method s m args) (\<lambda>(r, s'). call_all s' cs)"

text \<open>
  The file as the compiler reads it: the function definitions of the class statement,
  each with the number of statements in its body, then the two statements at module
  level. Python compiles a whole file before it runs any of it, and a \<^verbatim>\<open>def\<close> whose
  body is empty is rejected with \<^verbatim>\<open>IndentationError\<close>.
\<close>

definition Signal_defs :: "(string \<times> nat) list" where
  "Signal_defs =
    [(''__init__'', 7), (''get_name'', 1), (''get_quantity'', 1), (''get_unit'', 1),
     (''get_value_type'', 1), (''get_n_dimensions'', 1), (''get_size'', 1),
     (''set_size'', 1), (''add_value'', 0)]"

fun py_compile :: "(string \<times> nat) list \<Rightarrow> pyerror + unit" where
  "py_compile [] = Inr ()"
| "py_compile ((f, n) # ds) = (if n = 0 then Inl (IndentationError f) else py_compile ds)"

text \<open>
  The statements at module level:
  \<^verbatim>\<open>s = Signal("lat", "test", "test", "m", float, 1)\<close> and
  \<^verbatim>\<open>print(s.get_name())\<close>. The result is what was printed, one value a line.
\<close>

definition Signal_demo :: "pyerror + pyval list" where
  "Signal_demo =
    bindE (py_name Signal_globals ''float'') (\<lambda>float_t.
    bindE (Signal_init (PStr ''lat'') (PStr ''test'') (PStr ''test'') (PStr ''m'') float_t (PInt 1))
      (\<lambda>s.
    bindE (call_method s ''get_name'' []) (\<lambda>(r, s'). Inr [r])))"

definition Signal_module :: "pyerror + pyval list" where
  "Signal_module = bindE (py_compile Signal_defs) (\<lambda>_. Signal_demo)"

section \<open>ValueType.py\<close>

text \<open>
  \<^verbatim>\<open>ValueType.py\<close> imports \<^verbatim>\<open>Enum\<close> and the module \<^verbatim>\<open>datetime\<close>, and defines
  the two classes.
\<close>

definition ValueType_globals :: "(string \<times> pyval) list" where
  "ValueType_globals =
    [(''Enum'', PType (TOther ''enum.Enum'')), (''datetime'', PModule ''datetime''),
     (''ValueTypeItem'', PType (TOther ''ValueTypeItem'')),
     (''ValueType'', PType (TOther ''ValueType''))]"

record ValueTypeItem =
  i_name :: pyval
  i_value_type :: pyval

definition ValueTypeItem_init :: "pyval \<Rightarrow> pyval \<Rightarrow> pyerror + ValueTypeItem" where
  "ValueTypeItem_init name value_type = Inr \<lparr>i_name = name, i_value_type = value_type\<rparr>"

definition ValueTypeItem_get_name :: "ValueTypeItem \<Rightarrow> pyval" where
  "ValueTypeItem_get_name self = i_name self"

definition ValueTypeItem_get_value_type :: "ValueTypeItem \<Rightarrow> pyval" where
  "ValueTypeItem_get_value_type self = i_value_type self"

definition ValueTypeItem_str :: "ValueTypeItem \<Rightarrow> pyval" where
  "ValueTypeItem_str self = i_name self"

text \<open>
  The builtin \<^verbatim>\<open>str(item)\<close> calls \<^verbatim>\<open>__str__\<close> and raises \<^verbatim>\<open>TypeError\<close> when the
  result is not a string.
\<close>

definition py_str :: "ValueTypeItem \<Rightarrow> pyerror + string" where
  "py_str item =
    (case ValueTypeItem_str item of
       PStr s \<Rightarrow> Inr s
     | _ \<Rightarrow> Inl (TypeError ''__str__ returned non-string''))"

definition ValueTypeItem_methods :: "(string \<times> ValueTypeItem pymethod) list" where
  "ValueTypeItem_methods =
    [(''get_name'', getter ValueTypeItem_get_name),
     (''get_value_type'', getter ValueTypeItem_get_value_type),
     (''__str__'', getter ValueTypeItem_str)]"

definition ValueTypeItem_fields :: "ValueTypeItem \<Rightarrow> (string \<times> pyval) list" where
  "ValueTypeItem_fields self = [(''_name'', i_name self), (''_value_type'', i_value_type self)]"

definition item_call ::
  "ValueTypeItem \<Rightarrow> string \<Rightarrow> pyval list \<Rightarrow> pyerror + (pyval \<times> ValueTypeItem)" where
  "item_call self m args =
    (case map_of (ValueTypeItem_fields self) m of
       Some v \<Rightarrow> Inl (TypeError ''not callable'')
     | None \<Rightarrow>
         (case map_of ValueTypeItem_methods m of
            None \<Rightarrow> Inl (AttributeError m)
          | Some f \<Rightarrow> f self args))"

text \<open>
  The enumeration: five members in declaration order, each with the
  \<open>ValueTypeItem\<close> its class-body line constructs. The items are distinct objects, so
  no member is an alias of another and iteration yields all five.
\<close>

datatype ValueType = FLOAT | INTEGER | STRING | BOOLEAN | DATETIME

definition ValueType_value :: "ValueType \<Rightarrow> ValueTypeItem" where
  "ValueType_value m =
    (case m of
       FLOAT \<Rightarrow> \<lparr>i_name = PStr ''float'', i_value_type = PType TFloat\<rparr>
     | INTEGER \<Rightarrow> \<lparr>i_name = PStr ''integer'', i_value_type = PType TInt\<rparr>
     | STRING \<Rightarrow> \<lparr>i_name = PStr ''string'', i_value_type = PType TStr\<rparr>
     | BOOLEAN \<Rightarrow> \<lparr>i_name = PStr ''boolean'', i_value_type = PType TBool\<rparr>
     | DATETIME \<Rightarrow> \<lparr>i_name = PStr ''datetime'', i_value_type = PType TDate\<rparr>)"

definition ValueType_members :: "ValueType list" where
  "ValueType_members = [FLOAT, INTEGER, STRING, BOOLEAN, DATETIME]"

text \<open>
  \<^verbatim>\<open>ValueType.get\<close>: the \<^verbatim>\<open>for\<close> loop over the members. The first test is
  \<^verbatim>\<open>isinstance(value, str) and item.value.get_name() == value\<close>; the second builds the
  tuple \<^verbatim>\<open>(int, float, bool, str, datetime.date)\<close>, so it evaluates those names each
  time it is reached. Falling out of the loop returns \<^verbatim>\<open>None\<close>.
\<close>

fun get_loop :: "ValueType list \<Rightarrow> pyval \<Rightarrow> pyerror + ValueType option" where
  "get_loop [] value = Inr None"
| "get_loop (item # items) value =
    (if isinstance_str value \<and> py_eq (ValueTypeItem_get_name (ValueType_value item)) value
     then Inr (Some item)
     else
       bindE (py_tuple [py_name ValueType_globals ''int'', py_name ValueType_globals ''float'',
                        py_name ValueType_globals ''bool'', py_name ValueType_globals ''str'',
                        py_attr ValueType_globals ''datetime'' ''date''])
         (\<lambda>prims.
           if py_in value prims \<and>
              py_eq (ValueTypeItem_get_value_type (ValueType_value item)) value
           then Inr (Some item)
           else get_loop items value))"

definition ValueType_get :: "pyval \<Rightarrow> pyerror + ValueType option" where
  "ValueType_get value = get_loop ValueType_members value"

section \<open>Properties\<close>

subsection \<open>Comparisons and name lookups\<close>

lemma py_eq_PType_right: "py_eq v (PType t) = (v = PType t)"
  by (cases v) (auto simp: py_eq_def py_int_of_def)

lemma py_eq_PType_left: "py_eq (PType t) v = (v = PType t)"
  by (cases v) (auto simp: py_eq_def py_int_of_def)

lemma py_eq_PStr_left: "py_eq (PStr s) v = (v = PStr s)"
  by (cases v) (auto simp: py_eq_def py_int_of_def)

lemma Signal_float_int:
  "py_tuple [py_name Signal_globals ''float'', py_name Signal_globals ''int'']
     = Inr [PType TFloat, PType TInt]"
  by (simp add: py_name_def Signal_globals_def py_builtins_def bindE_def)

lemma Signal_datetime_unbound:
  "py_attr Signal_globals ''datetime'' ''date'' = Inl (NameError ''datetime'')"
  by (simp add: py_attr_def py_name_def Signal_globals_def py_builtins_def bindE_def)

lemma ValueType_prims:
  "py_tuple [py_name ValueType_globals ''int'', py_name ValueType_globals ''float'',
             py_name ValueType_globals ''bool'', py_name ValueType_globals ''str'',
             py_attr ValueType_globals ''datetime'' ''date'']
     = Inr [PType TInt, PType TFloat, PType TBool, PType TStr, PType TDate]"
  by (simp add: py_name_def py_attr_def py_getattr_def ValueType_globals_def py_builtins_def
      datetime_module_def bindE_def)

subsection \<open>The constructor of Signal\<close>

text \<open>
  What \<^verbatim>\<open>__init__\<close> computes. The first test needs only builtins. Every other
  value type reaches \<^verbatim>\<open>value_type == datetime.date\<close>, and \<^verbatim>\<open>datetime\<close> is bound
  neither in \<^verbatim>\<open>Signal.py\<close> nor among the builtins: the branches for 30, 1 and 0 are
  never reached.
\<close>

lemma Signal_init_eq:
  "Signal_init n d q u vt nd =
    (if vt = PType TFloat \<or> vt = PType TInt
     then Inr \<lparr>s_name = n, s_description = d, s_quantity = q, s_unit = u,
               s_value_type = vt, s_n_dimensions = nd, s_size = PInt 8\<rparr>
     else Inl (NameError ''datetime''))"
  unfolding Signal_init_def Signal_float_int Signal_datetime_unbound
  by (simp add: bindE_def py_eq_PType_right)

text \<open>
  C8. A construction whose value type is neither \<^verbatim>\<open>float\<close> nor \<^verbatim>\<open>int\<close> raises
  \<^verbatim>\<open>NameError\<close> for the name \<^verbatim>\<open>datetime\<close>; a construction with \<^verbatim>\<open>float\<close> or
  \<^verbatim>\<open>int\<close> completes with size 8; and a construction that completes had one of these
  two value types and has size 8.
\<close>

theorem Signal_init_NameError:
  "(vt \<noteq> PType TFloat \<and> vt \<noteq> PType TInt \<longrightarrow>
      Signal_init n d q u vt nd = Inl (NameError ''datetime'')) \<and>
   (vt = PType TFloat \<or> vt = PType TInt \<longrightarrow>
      (\<exists>s. Signal_init n d q u vt nd = Inr s \<and> Signal_get_size s = PInt 8)) \<and>
   (\<forall>s. Signal_init n d q u vt nd = Inr s \<longrightarrow>
      (vt = PType TFloat \<or> vt = PType TInt) \<and> Signal_get_size s = PInt 8)"
  by (auto simp: Signal_init_eq Signal_get_size_def)

theorem Signal_init_NameError_witness:
  "Signal_init (PStr ''lat'') (PStr ''test'') (PStr ''test'') (PStr ''m'') (PType TBool) (PInt 1)
     = Inl (NameError ''datetime'') \<and>
   (\<exists>s. Signal_init (PStr ''lat'') (PStr ''test'') (PStr ''test'') (PStr ''m'') (PType TInt) (PInt 1)
     = Inr s \<and> Signal_get_size s = PInt 8)"
  using
    Signal_init_NameError [of "PType TBool" "PStr ''lat''" "PStr ''test''" "PStr ''test''"
      "PStr ''m''" "PInt 1"]
    Signal_init_NameError [of "PType TInt" "PStr ''lat''" "PStr ''test''" "PStr ''test''"
      "PStr ''m''" "PInt 1"]
  by simp

text \<open>
  C1. The size rule gives 30 for the calendar-date type and 1 for the boolean type. The
  constructor raises \<^verbatim>\<open>NameError\<close> for both: \<^verbatim>\<open>Signal("t", "time", "time", "s",
  datetime.date, 1)\<close> and \<^verbatim>\<open>Signal("ok", "flag", "flag", "1", bool, 1)\<close> build no
  object, so there is no size to read.
\<close>

theorem Signal_init_bool_date_raise:
  "Signal_init (PStr ''t'') (PStr ''time'') (PStr ''time'') (PStr ''s'') (PType TDate) (PInt 1)
     = Inl (NameError ''datetime'') \<and>
   Signal_init (PStr ''ok'') (PStr ''flag'') (PStr ''flag'') (PStr ''1'') (PType TBool) (PInt 1)
     = Inl (NameError ''datetime'')"
  by (simp add: Signal_init_eq)

text \<open>
  C2. Construction is said never to fail, an unrecognized value type giving size 0. With
  the text type \<^verbatim>\<open>str\<close>, or with \<^verbatim>\<open>None\<close>, as value type the constructor raises
  \<^verbatim>\<open>NameError\<close>.
\<close>

theorem Signal_init_unrecognized_raise:
  "Signal_init (PStr ''id'') (PStr ''label'') (PStr ''label'') (PStr ''1'') (PType TStr) (PInt 1)
     = Inl (NameError ''datetime'') \<and>
   Signal_init (PStr ''id'') (PStr ''label'') (PStr ''label'') (PStr ''1'') PNone (PInt 1)
     = Inl (NameError ''datetime'')"
  by (simp add: Signal_init_eq)

subsection \<open>The module Signal.py\<close>

text \<open>
  C3. The two statements at module level, run on their own, construct the signal and
  print \<^verbatim>\<open>lat\<close>. The file that holds them does not compile: \<^verbatim>\<open>add_value\<close> has no
  body, so loading or running \<^verbatim>\<open>Signal.py\<close> ends with \<^verbatim>\<open>IndentationError\<close> before
  any statement runs, and nothing is printed.
\<close>

theorem Signal_module_IndentationError:
  "Signal_module = Inl (IndentationError ''add_value'') \<and> Signal_demo = Inr [PStr ''lat'']"
proof
  show "Signal_module = Inl (IndentationError ''add_value'')"
    by (simp add: Signal_module_def Signal_defs_def bindE_def)
  have "py_name Signal_globals ''float'' = Inr (PType TFloat)"
    by (simp add: py_name_def Signal_globals_def py_builtins_def)
  then show "Signal_demo = Inr [PStr ''lat'']"
    by (simp add: Signal_demo_def Signal_init_eq bindE_def call_method_def Signal_fields_def
        Signal_methods_def getter_def Signal_get_name_def)
qed

subsection \<open>Method calls on a Signal\<close>

lemma call_method_cases:
  assumes "call_method s m args = Inr (r, s')"
  shows "(m = ''set_size'' \<and> args = [s_size s'] \<and> s' = Signal_set_size s (s_size s') \<and> r = PNone)
       \<or> (m \<noteq> ''set_size'' \<and> args = [] \<and> s' = s)"
  using assms
  by (auto simp: call_method_def Signal_fields_def Signal_methods_def getter_def setter_def
      Signal_set_size_def split: if_splits list.splits)

lemma call_all_frame:
  "call_all s cs = Inr s' \<Longrightarrow> \<forall>c \<in> set cs. fst c \<noteq> ''set_size'' \<Longrightarrow> s' = s"
proof (induction cs arbitrary: s)
  case Nil
  then show ?case by simp
next
  case (Cons c cs)
  obtain m args where c: "c = (m, args)" by (cases c)
  from Cons.prems(1) c obtain r s1 where
    step: "call_method s m args = Inr (r, s1)" and rest: "call_all s1 cs = Inr s'"
    by (auto simp: bindE_def split: sum.splits)
  from Cons.prems(2) c have "m \<noteq> ''set_size''" by simp
  with call_method_cases [OF step] have "s1 = s" by blast
  moreover from Cons.prems(2) have "\<forall>c \<in> set cs. fst c \<noteq> ''set_size''" by simp
  ultimately show ?case using Cons.IH rest by blast
qed

text \<open>
  The six accessors the class defines return the fields set at construction and leave
  the object as it is.
\<close>

lemma Signal_accessors:
  "call_method s ''get_name'' [] = Inr (s_name s, s) \<and>
   call_method s ''get_quantity'' [] = Inr (s_quantity s, s) \<and>
   call_method s ''get_unit'' [] = Inr (s_unit s, s) \<and>
   call_method s ''get_value_type'' [] = Inr (s_value_type s, s) \<and>
   call_method s ''get_n_dimensions'' [] = Inr (s_n_dimensions s, s) \<and>
   call_method s ''get_size'' [] = Inr (s_size s, s)"
  by (simp add: call_method_def Signal_fields_def Signal_methods_def getter_def
      Signal_get_name_def Signal_get_quantity_def Signal_get_unit_def
      Signal_get_value_type_def Signal_get_n_dimensions_def Signal_get_size_def)

text \<open>
  C6. A read accessor is claimed for each of the seven attributes. The class defines six:
  \<^verbatim>\<open>_description\<close> is stored by the constructor and no method reads it, so
  \<^verbatim>\<open>s.get_description()\<close> raises \<^verbatim>\<open>AttributeError\<close> on every signal.
\<close>

theorem Signal_no_get_description:
  "call_method s ''get_description'' [] = Inl (AttributeError ''get_description'') \<and>
   map fst Signal_methods =
     [''get_name'', ''get_quantity'', ''get_unit'', ''get_value_type'', ''get_n_dimensions'',
      ''get_size'', ''set_size'']"
  by (simp add: call_method_def Signal_fields_def Signal_methods_def)

text \<open>
  C7. After \<^verbatim>\<open>set_size(v)\<close> the accessor \<^verbatim>\<open>get_size\<close> returns \<open>v\<close>, and the six
  other fields are what they were.
\<close>

theorem set_size_frame:
  "call_method s ''set_size'' [v] = Inr (PNone, Signal_set_size s v) \<and>
   Signal_get_size (Signal_set_size s v) = v \<and>
   Signal_get_name (Signal_set_size s v) = Signal_get_name s \<and>
   s_description (Signal_set_size s v) = s_description s \<and>
   Signal_get_quantity (Signal_set_size s v) = Signal_get_quantity s \<and>
   Signal_get_unit (Signal_set_size s v) = Signal_get_unit s \<and>
   Signal_get_value_type (Signal_set_size s v) = Signal_get_value_type s \<and>
   Signal_get_n_dimensions (Signal_set_size s v) = Signal_get_n_dimensions s"
  by (simp add: call_method_def Signal_fields_def Signal_methods_def setter_def
      Signal_set_size_def Signal_get_size_def Signal_get_name_def Signal_get_quantity_def
      Signal_get_unit_def Signal_get_value_type_def Signal_get_n_dimensions_def)

text \<open>
  C10. \<^verbatim>\<open>set_size(v)\<close> succeeds for every value \<open>v\<close>, and \<^verbatim>\<open>get_size\<close> then
  returns \<open>v\<close>. No later call recomputes the size: after any run of calls to the other
  methods that completes, \<^verbatim>\<open>get_size\<close> still returns \<open>v\<close>.
\<close>

theorem set_size_no_validation:
  "(\<exists>s'. call_method s ''set_size'' [v] = Inr (PNone, s') \<and>
      call_method s' ''get_size'' [] = Inr (v, s') \<and>
      s_value_type s' = s_value_type s) \<and>
   (\<forall>cs s'. call_all (Signal_set_size s v) cs = Inr s' \<and> (\<forall>c \<in> set cs. fst c \<noteq> ''set_size'')
      \<longrightarrow> Signal_get_size s' = v)"
proof
  show "\<exists>s'. call_method s ''set_size'' [v] = Inr (PNone, s') \<and>
      call_method s' ''get_size'' [] = Inr (v, s') \<and> s_value_type s' = s_value_type s"
    by (simp add: call_method_def Signal_fields_def Signal_methods_def setter_def getter_def
        Signal_set_size_def Signal_get_size_def)
  show "\<forall>cs s'. call_all (Signal_set_size s v) cs = Inr s' \<and>
      (\<forall>c \<in> set cs. fst c \<noteq> ''set_size'') \<longrightarrow> Signal_get_size s' = v"
    using call_all_frame by (fastforce simp: Signal_get_size_def Signal_set_size_def)
qed

theorem set_size_no_validation_witness:
  "\<exists>s'. call_all
      (Signal_set_size
        \<lparr>s_name = PStr ''lat'', s_description = PStr ''test'', s_quantity = PStr ''test'',
         s_unit = PStr ''m'', s_value_type = PType TFloat, s_n_dimensions = PInt 1,
         s_size = PInt 8\<rparr> (PStr ''big''))
      [(''get_value_type'', []), (''get_size'', [])] = Inr s' \<and> Signal_get_size s' = PStr ''big''"
proof -
  let ?s = "\<lparr>s_name = PStr ''lat'', s_description = PStr ''test'', s_quantity = PStr ''test'',
         s_unit = PStr ''m'', s_value_type = PType TFloat, s_n_dimensions = PInt 1,
         s_size = PInt 8\<rparr>"
  let ?cs = "[(''get_value_type'', []), (''get_size'', [])]"
  have run: "call_all (Signal_set_size ?s (PStr ''big'')) ?cs = Inr (Signal_set_size ?s (PStr ''big''))"
    by (simp add: bindE_def call_method_def Signal_fields_def Signal_methods_def getter_def
        Signal_set_size_def)
  have nos: "\<forall>c \<in> set ?cs. fst c \<noteq> ''set_size''" by simp
  from set_size_no_validation [of ?s "PStr ''big''"] run nos
  have "Signal_get_size (Signal_set_size ?s (PStr ''big'')) = PStr ''big''" by blast
  with run show ?thesis by blast
qed

subsection \<open>ValueTypeItem\<close>

lemma item_call_cases:
  assumes "item_call item m args = Inr (r, item')"
  shows "item' = item \<and> args = []"
  using assms
  by (auto simp: item_call_def ValueTypeItem_fields_def ValueTypeItem_methods_def getter_def
      split: if_splits list.splits)

text \<open>
  C9. Construction from a name and a primitive type always succeeds; \<^verbatim>\<open>get_name\<close>
  returns the name and \<^verbatim>\<open>get_value_type\<close> the primitive type passed in;
  \<^verbatim>\<open>__str__\<close> returns the name, so for a name that is a string \<^verbatim>\<open>str(item)\<close> is
  that string; and no method call changes the item.
\<close>

theorem ValueTypeItem_contract:
  "\<exists>item. ValueTypeItem_init nm t = Inr item \<and>
      ValueTypeItem_get_name item = nm \<and>
      ValueTypeItem_get_value_type item = t \<and>
      ValueTypeItem_str item = nm \<and>
      (\<forall>n. nm = PStr n \<longrightarrow> py_str item = Inr n) \<and>
      item_call item ''get_name'' [] = Inr (nm, item) \<and>
      item_call item ''get_value_type'' [] = Inr (t, item) \<and>
      item_call item ''__str__'' [] = Inr (nm, item) \<and>
      (\<forall>m args r item'. item_call item m args = Inr (r, item') \<longrightarrow> item' = item)"
proof -
  let ?item = "\<lparr>i_name = nm, i_value_type = t\<rparr>"
  have init: "ValueTypeItem_init nm t = Inr ?item"
    by (simp add: ValueTypeItem_init_def)
  have acc: "ValueTypeItem_get_name ?item = nm \<and> ValueTypeItem_get_value_type ?item = t \<and>
      ValueTypeItem_str ?item = nm"
    by (simp add: ValueTypeItem_get_name_def ValueTypeItem_get_value_type_def
        ValueTypeItem_str_def)
  have str: "\<forall>n. nm = PStr n \<longrightarrow> py_str ?item = Inr n"
    by (simp add: py_str_def ValueTypeItem_str_def)
  have calls: "item_call ?item ''get_name'' [] = Inr (nm, ?item) \<and>
      item_call ?item ''get_value_type'' [] = Inr (t, ?item) \<and>
      item_call ?item ''__str__'' [] = Inr (nm, ?item)"
    by (simp add: item_call_def ValueTypeItem_fields_def ValueTypeItem_methods_def getter_def
        ValueTypeItem_get_name_def ValueTypeItem_get_value_type_def ValueTypeItem_str_def)
  have frame: "\<forall>m args r item'. item_call ?item m args = Inr (r, item') \<longrightarrow> item' = ?item"
    using item_call_cases by blast
  from init acc str calls frame show ?thesis by blast
qed

theorem ValueTypeItem_contract_witness:
  "\<exists>item. ValueTypeItem_init (PStr ''float'') (PType TFloat) = Inr item \<and>
      ValueTypeItem_get_name item = PStr ''float'' \<and>
      ValueTypeItem_get_value_type item = PType TFloat \<and>
      py_str item = Inr ''float'' \<and>
      item_call item ''get_name'' [] = Inr (PStr ''float'', item)"
  using ValueTypeItem_contract [of "PStr ''float''" "PType TFloat"]
  by auto

subsection \<open>ValueType.get\<close>

text \<open>
  One turn of the loop: the tuple of primitive types evaluates without an exception,
  since \<^verbatim>\<open>ValueType.py\<close> imports \<^verbatim>\<open>datetime\<close>.
\<close>

lemma get_loop_step:
  "get_loop (item # items) v =
    (if (\<exists>s. v = PStr s) \<and> v = i_name (ValueType_value item) then Inr (Some item)
     else if v \<in> {PType TInt, PType TFloat, PType TBool, PType TStr, PType TDate} \<and>
             v = i_value_type (ValueType_value item) then Inr (Some item)
     else get_loop items v)"
  apply (cases "ValueType_value item")
  apply (cases item; cases v)
  apply (auto simp del: py_tuple.simps simp: ValueType_prims bindE_def isinstance_str_def
      ValueTypeItem_get_name_def ValueTypeItem_get_value_type_def ValueType_value_def
      py_eq_PType_right py_eq_PType_left py_eq_PStr_left)
  done

lemma ValueType_get_eq:
  "ValueType_get v =
    Inr (if v = PStr ''float'' \<or> v = PType TFloat then Some FLOAT
         else if v = PStr ''integer'' \<or> v = PType TInt then Some INTEGER
         else if v = PStr ''string'' \<or> v = PType TStr then Some STRING
         else if v = PStr ''boolean'' \<or> v = PType TBool then Some BOOLEAN
         else if v = PStr ''datetime'' \<or> v = PType TDate then Some DATETIME
         else None)"
  unfolding ValueType_get_def ValueType_members_def get_loop_step
  by (auto simp: ValueType_value_def)

text \<open>
  C4. For each of the five members, \<^verbatim>\<open>get\<close> of the member's item name returns the
  member, and \<^verbatim>\<open>get\<close> of the member's item primitive type returns the member.
\<close>

theorem ValueType_get_roundtrip:
  "ValueType_get (ValueTypeItem_get_name (ValueType_value m)) = Inr (Some m) \<and>
   ValueType_get (ValueTypeItem_get_value_type (ValueType_value m)) = Inr (Some m)"
  by (cases m)
    (simp_all add: ValueType_get_eq ValueType_value_def ValueTypeItem_get_name_def
      ValueTypeItem_get_value_type_def)

text \<open>
  C5. \<^verbatim>\<open>get\<close> raises for no input: it returns \<^verbatim>\<open>None\<close>, or a member whose item
  name or primitive type is the input. A string that is none of the five names, a class
  that is none of the five primitive types, and an input that is neither a string nor
  one of the five primitive types all give \<^verbatim>\<open>None\<close>.
\<close>

theorem ValueType_get_total:
  "(ValueType_get v = Inr None \<or>
     (\<exists>m. ValueType_get v = Inr (Some m) \<and>
        (v = ValueTypeItem_get_name (ValueType_value m) \<or>
         v = ValueTypeItem_get_value_type (ValueType_value m)))) \<and>
   (\<forall>s. v = PStr s \<and> s \<notin> set [''float'', ''integer'', ''string'', ''boolean'', ''datetime'']
      \<longrightarrow> ValueType_get v = Inr None) \<and>
   (\<forall>t. v = PType t \<and> t \<notin> set [TFloat, TInt, TStr, TBool, TDate]
      \<longrightarrow> ValueType_get v = Inr None) \<and>
   (\<not> isinstance_str v \<and> v \<notin> set (map PType [TInt, TFloat, TBool, TStr, TDate])
      \<longrightarrow> ValueType_get v = Inr None)"
  by (auto simp: ValueType_get_eq ValueType_value_def ValueTypeItem_get_name_def
      ValueTypeItem_get_value_type_def isinstance_str_def)

theorem ValueType_get_total_witness:
  "ValueType_get (PStr ''double'') = Inr None \<and>
   ValueType_get (PType (TOther ''complex'')) = Inr None \<and>
   ValueType_get (PInt 42) = Inr None"
  using ValueType_get_total [of "PStr ''double''"]
    ValueType_get_total [of "PType (TOther ''complex'')"]
    ValueType_get_total [of "PInt 42"]
  by (simp add: isinstance_str_def)

end
